theory Spec2Isabelle
  imports Main
begin

section \<open>The surveillance package: error reporting glue (sentry.go)\<close>

text \<open>
  The Go source reports errors and recovered panics to an external tracking SDK. The
  embedding makes every effect of the source an event of a trace, in program order, and
  every way of leaving a function a value: a normal return or a panic.
\<close>

subsection \<open>Data\<close>

type_synonym EventID = string

type_synonym kv = "(string \<times> string) list"

text \<open>The result codes of the RPC framework (\<open>google.golang.org/grpc/codes\<close>).\<close>

datatype codes =
    OK | Canceled | Unknown | InvalidArgument | DeadlineExceeded | NotFound
  | AlreadyExists | PermissionDenied | ResourceExhausted | FailedPrecondition
  | Aborted | OutOfRange | Unimplemented | Internal | Unavailable | DataLoss
  | Unauthenticated

text \<open>
  A non-nil Go \<open>error\<close>: an application error with its message, or the error built by
  \<open>status.Errorf(code, ...)\<close>, which carries a result code and a message. A nil error is
  \<open>None\<close> of \<open>error option\<close>.
\<close>

datatype error = AppError string | StatusError codes string

fun code_String :: "codes \<Rightarrow> string" where
  "code_String OK = ''OK''"
| "code_String Canceled = ''Canceled''"
| "code_String Unknown = ''Unknown''"
| "code_String InvalidArgument = ''InvalidArgument''"
| "code_String DeadlineExceeded = ''DeadlineExceeded''"
| "code_String NotFound = ''NotFound''"
| "code_String AlreadyExists = ''AlreadyExists''"
| "code_String PermissionDenied = ''PermissionDenied''"
| "code_String ResourceExhausted = ''ResourceExhausted''"
| "code_String FailedPrecondition = ''FailedPrecondition''"
| "code_String Aborted = ''Aborted''"
| "code_String OutOfRange = ''OutOfRange''"
| "code_String Unimplemented = ''Unimplemented''"
| "code_String Internal = ''Internal''"
| "code_String Unavailable = ''Unavailable''"
| "code_String DataLoss = ''DataLoss''"
| "code_String Unauthenticated = ''Unauthenticated''"

text \<open>The \<open>Error()\<close> method of an error value.\<close>

fun Error :: "error \<Rightarrow> string" where
  "Error (AppError m) = m"
| "Error (StatusError c m) = ''rpc error: code = '' @ code_String c @ '' desc = '' @ m"

text \<open>\<open>status.Code\<close> and the message of the status of an error.\<close>

fun status_Code :: "error \<Rightarrow> codes" where
  "status_Code (StatusError c m) = c"
| "status_Code (AppError m) = Unknown"

fun status_Message :: "error \<Rightarrow> string" where
  "status_Message (StatusError c m) = m"
| "status_Message (AppError m) = m"

text \<open>
  The value carried by a panic: an error (\<open>panic(err)\<close>), a string, or the run-time
  error of dereferencing a nil pointer.
\<close>

datatype panic_value = PanicError error | PanicString string | NilDereference

text \<open>\<open>fmt.Sprintf("%s", r)\<close> on a panic value.\<close>

fun Sprintf_s :: "panic_value \<Rightarrow> string" where
  "Sprintf_s (PanicError e) = Error e"
| "Sprintf_s (PanicString s) = s"
| "Sprintf_s NilDereference =
     ''runtime error: invalid memory address or nil pointer dereference''"

definition status_Errorf :: "codes \<Rightarrow> panic_value \<Rightarrow> error" where
  "status_Errorf c r = StatusError c (Sprintf_s r)"

text \<open>How a call ends: it returns a value or it panics.\<close>

datatype 'a outcome = Return 'a | Panic panic_value

text \<open>
  Reporting sessions (hubs) of the SDK: the process-wide one (\<open>sentry.CurrentHub()\<close>), a
  clone of a hub (\<open>hub.Clone()\<close>, a new object), or a hub some caller made for a request.
\<close>

datatype hub = CurrentHub | Clone hub | RequestHub nat

text \<open>
  A \<open>context.Context\<close>: the hub stored in it, if any, and everything else it carries.
\<close>

record Context =
  ctx_hub :: "hub option"
  ctx_values :: kv

definition GetHubFromContext :: "Context \<Rightarrow> hub option" where
  "GetHubFromContext c = ctx_hub c"

definition SetHubOnContext :: "Context \<Rightarrow> hub \<Rightarrow> Context" where
  "SetHubOnContext c h = c\<lparr>ctx_hub := Some h\<rparr>"

text \<open>
  Modelled from the spec: \<open>WrapServerStream\<close> of package \<open>sentry\<close> of this repository is
  not part of the source file. The spec says that the stream handle is wrapped to expose
  the updated context to downstream reads and writes: the wrapper holds the stream and a
  context of its own, \<open>WrappedContext\<close>, which starts as the context of the stream and
  which the stream interceptor overwrites.
\<close>

record server_stream =
  stream_name :: string
  stream_context :: Context

record wrapped_stream =
  ServerStream :: server_stream
  WrappedContext :: Context

definition WrapServerStream :: "server_stream \<Rightarrow> wrapped_stream" where
  "WrapServerStream s = \<lparr>ServerStream = s, WrappedContext = stream_context s\<rparr>"

text \<open>The observable effects, in the order the source performs them.\<close>

datatype effect =
    LogError error
  | LogErrorf error EventID
  | LogWarnf string
  | PushScope
  | PopScope
  | SetContext string kv
  | SetExtras kv
  | SetTags kv
  | CaptureException hub "error option"
  | RecoverWithContext hub Context panic_value
  | InvokeUnary Context string
  | InvokeStream string wrapped_stream

text \<open>
  The collaborators the source calls and that are not part of it, as parameters: the
  error classification of package \<open>errors\<close> and the answer of the SDK to
  \<open>CaptureException\<close>, which is a pointer to an identifier, nil (\<open>None\<close>) when the event
  is dropped.
\<close>

record collab =
  Ignore :: "error \<Rightarrow> bool"
  Extras :: "error \<Rightarrow> kv option"
  Tags :: "error \<Rightarrow> kv"
  sdk_capture :: "hub \<Rightarrow> error option \<Rightarrow> EventID option"

type_synonym HandlerFunc = "string \<Rightarrow> effect list \<times> string outcome"

type_synonym Handle = "string \<Rightarrow> kv \<Rightarrow> effect list \<times> string outcome"

datatype Client = Client string

text \<open>The HTTP adapter of package \<open>sentry\<close> of this repository, with its two decorators.\<close>

record Handler =
  Handler_HandleFunc :: "HandlerFunc \<Rightarrow> HandlerFunc"
  Handler_HandleHttpRouter :: "Handle \<Rightarrow> Handle"

record Sentry =
  client :: "Client option"
  handler :: "Handler option"

subsection \<open>Initialisation\<close>

text \<open>
  \<open>InitSentry\<close>: \<open>dsn\<close> is the endpoint setting, \<open>init_ok\<close> says whether \<open>sentry.Init\<close>
  succeeded, \<open>h\<close> is the adapter \<open>sentryWrapper.New\<close> builds.
\<close>

definition InitSentry :: "string \<Rightarrow> bool \<Rightarrow> Handler \<Rightarrow> effect list \<times> Sentry" where
  "InitSentry dsn init_ok h =
     (if dsn \<noteq> '''' then
        (if \<not> init_ok then ([LogWarnf dsn], \<lparr>client = None, handler = None\<rparr>)
         else ([], \<lparr>client = Some (Client dsn), handler = Some h\<rparr>))
      else ([LogWarnf dsn], \<lparr>client = None, handler = None\<rparr>))"

subsection \<open>Capture and CaptureWithContext\<close>

text \<open>The body of the callback given to \<open>sentry.WithScope\<close>, before the capture.\<close>

definition scope_setup :: "collab \<Rightarrow> error \<Rightarrow> effect list" where
  "scope_setup k e =
     (case Extras k e of
        Some x \<Rightarrow> [SetContext ''extras'' x, SetExtras x]
      | None \<Rightarrow> [])
     @ [SetTags (Tags k e)]"

text \<open>
  \<open>Capture\<close>. The local \<open>eventID\<close> is a pointer: \<open>new(sentry.EventID)\<close> is \<open>Some ''''\<close>,
  nil is \<open>None\<close>. The function ends with the nil guard of lines 111 to 115.
\<close>

definition Capture :: "collab \<Rightarrow> Sentry \<Rightarrow> error option \<Rightarrow> bool \<Rightarrow> effect list \<times> EventID outcome" where
  "Capture k wrapper err panic_flag =
     (case err of
        None \<Rightarrow> ([], Return '''')
      | Some e \<Rightarrow>
          (let (tr, eventID) =
                 (if client wrapper \<noteq> None \<and> \<not> Ignore k e then
                    (let r = sdk_capture k CurrentHub (Some e) in
                     ([PushScope] @ scope_setup k e @ [CaptureException CurrentHub (Some e)]
                        @ (case r of Some i \<Rightarrow> [LogErrorf e i] | None \<Rightarrow> [])
                        @ [PopScope],
                      r))
                  else ([LogError e], Some ''''))
           in if panic_flag then (tr, Panic (PanicError e))
              else (case eventID of
                      Some i \<Rightarrow> (tr, Return i)
                    | None \<Rightarrow> (tr, Return ''''))))"

text \<open>
  \<open>CaptureWithContext\<close>. Without a hub in the context it calls \<open>Capture\<close> and drops
  what it returns (line 148); a panic of \<open>Capture\<close> goes through. The function ends with
  \<open>return *eventID\<close>, which panics on a nil pointer.
\<close>

definition deref_return :: "effect list \<Rightarrow> EventID option \<Rightarrow> effect list \<times> EventID outcome" where
  "deref_return tr eventID =
     (case eventID of
        Some i \<Rightarrow> (tr, Return i)
      | None \<Rightarrow> (tr, Panic NilDereference))"

definition CaptureWithContext ::
  "collab \<Rightarrow> Sentry \<Rightarrow> Context \<Rightarrow> error option \<Rightarrow> bool \<Rightarrow> effect list \<times> EventID outcome" where
  "CaptureWithContext k wrapper c err panic_flag =
     (case err of
        None \<Rightarrow> deref_return [] (Some '''')
      | Some e \<Rightarrow>
          (if client wrapper \<noteq> None \<and> \<not> Ignore k e then
             (case GetHubFromContext c of
                Some hub \<Rightarrow>
                  (let r = sdk_capture k hub (Some e);
                       tr = [PushScope] @ scope_setup k e @ [PopScope]
                            @ [CaptureException hub (Some e)]
                            @ (case r of Some i \<Rightarrow> [LogErrorf e i] | None \<Rightarrow> [])
                   in if panic_flag then (tr, Panic (PanicError e))
                      else deref_return tr r)
              | None \<Rightarrow>
                  (case Capture k wrapper (Some e) panic_flag of
                     (tr, Panic r) \<Rightarrow> (tr, Panic r)
                   | (tr, Return _) \<Rightarrow>
                       (if panic_flag then (tr, Panic (PanicError e))
                        else deref_return tr (Some ''''))))
           else (if panic_flag then ([LogError e], Panic (PanicError e))
                 else deref_return [LogError e] (Some ''''))))"

subsection \<open>Handler decorators\<close>

definition HandleFunc :: "Sentry \<Rightarrow> HandlerFunc \<Rightarrow> HandlerFunc" where
  "HandleFunc wrapper h =
     (case handler wrapper of
        Some a \<Rightarrow> Handler_HandleFunc a h
      | None \<Rightarrow> h)"

definition HandleHttpRouter :: "Sentry \<Rightarrow> Handle \<Rightarrow> Handle" where
  "HandleHttpRouter wrapper h =
     (case handler wrapper of
        Some a \<Rightarrow> Handler_HandleHttpRouter a h
      | None \<Rightarrow> h)"

subsection \<open>RPC interceptors\<close>

text \<open>
  The options value the two closures read: the source tests \<open>opts.Repanic\<close> and calls
  \<open>opts.ReportOn(err)\<close>. The value is built by package \<open>sentry\<close> of this repository,
  which is not part of the source file, so it is a parameter of the closures.
\<close>

record Options =
  Repanic :: bool
  ReportOn :: "error option \<Rightarrow> bool"

type_synonym UnaryHandler =
  "Context \<Rightarrow> string \<Rightarrow> effect list \<times> (string option \<times> error option) outcome"

type_synonym StreamHandler =
  "string \<Rightarrow> wrapped_stream \<Rightarrow> effect list \<times> (error option) outcome"

text \<open>
  The closure \<open>UnaryServerInterceptor\<close> returns (lines 200 to 231), for the options
  \<open>opts\<close>. The results \<open>resp\<close> and \<open>err\<close> are named: when the handler panics they
  still hold nil, and the deferred function assigns \<open>err\<close>.
\<close>

definition unary_interceptor ::
  "Options \<Rightarrow> Context \<Rightarrow> string \<Rightarrow> UnaryHandler
     \<Rightarrow> effect list \<times> (string option \<times> error option) outcome" where
  "unary_interceptor opts ctx0 req h =
     (let (hub, ctx) =
            (case GetHubFromContext ctx0 of
               None \<Rightarrow> (Clone CurrentHub, SetHubOnContext ctx0 (Clone CurrentHub))
             | Some hub0 \<Rightarrow> (hub0, ctx0))
      in case h ctx req of
           (tr, Panic r) \<Rightarrow>
             (InvokeUnary ctx req # tr @ [RecoverWithContext hub ctx r],
              if Repanic opts then Panic r
              else Return (None, Some (status_Errorf Internal r)))
         | (tr, Return (resp, err)) \<Rightarrow>
             (InvokeUnary ctx req # tr
                @ (if ReportOn opts err then [CaptureException hub err] else []),
              Return (resp, err)))"

text \<open>
  The closure \<open>StreamServerInterceptor\<close> returns (lines 239 to 273). Its result is not
  named: the deferred function builds the status error and drops it (line 260), so after
  a recovered panic the closure returns the zero value of \<open>error\<close>, nil.
\<close>

definition stream_interceptor ::
  "Options \<Rightarrow> string \<Rightarrow> server_stream \<Rightarrow> StreamHandler
     \<Rightarrow> effect list \<times> (error option) outcome" where
  "stream_interceptor opts srv stream h =
     (let ctx0 = stream_context stream;
          (hub, ctx) =
            (case GetHubFromContext ctx0 of
               None \<Rightarrow> (Clone CurrentHub, SetHubOnContext ctx0 (Clone CurrentHub))
             | Some hub0 \<Rightarrow> (hub0, ctx0));
          wrapped = (WrapServerStream stream)\<lparr>WrappedContext := ctx\<rparr>
      in case h srv wrapped of
           (tr, Panic r) \<Rightarrow>
             (InvokeStream srv wrapped # tr @ [RecoverWithContext hub ctx r],
              if Repanic opts then Panic r
              else (let dropped = status_Errorf Internal r in Return None))
         | (tr, Return err) \<Rightarrow>
             (InvokeStream srv wrapped # tr
                @ (if ReportOn opts err then [CaptureException hub err] else []),
              Return err))"

text \<open>
  The context the spec promises to the downstream handler, in the spec's words: the
  context of the call when it already carries a session, else that context with a clone
  of the process-wide session attached.
\<close>

definition spec_session_context :: "Context \<Rightarrow> Context" where
  "spec_session_context c =
     (if GetHubFromContext c = None then SetHubOnContext c (Clone CurrentHub) else c)"

subsection \<open>Sample inputs\<close>

definition sample_collab :: collab where
  "sample_collab =
     \<lparr>Ignore = (\<lambda>e. e = AppError ''benign''),
      Extras = (\<lambda>e. None),
      Tags = (\<lambda>e. [(''component'', ''x'')]),
      sdk_capture = (\<lambda>h e. Some ''evt-1'')\<rparr>"

definition dropping_collab :: collab where
  "dropping_collab = sample_collab\<lparr>sdk_capture := (\<lambda>h e. None)\<rparr>"

definition sample_adapter :: Handler where
  "sample_adapter =
     \<lparr>Handler_HandleFunc = (\<lambda>h u. ([], Return ''wrapped'')),
      Handler_HandleHttpRouter = (\<lambda>h u ps. ([], Return ''wrapped''))\<rparr>"

definition enabled_reporter :: Sentry where
  "enabled_reporter = snd (InitSentry ''https://key@host/1'' True sample_adapter)"

definition disabled_reporter :: Sentry where
  "disabled_reporter = snd (InitSentry [] True sample_adapter)"

definition plain_context :: Context where
  "plain_context = \<lparr>ctx_hub = None, ctx_values = []\<rparr>"

definition session_context :: Context where
  "session_context = \<lparr>ctx_hub = Some (RequestHub 7), ctx_values = []\<rparr>"

definition sample_options :: Options where
  "sample_options = \<lparr>Repanic = False, ReportOn = (\<lambda>e. e \<noteq> None)\<rparr>"

definition panicking_unary :: UnaryHandler where
  "panicking_unary c req = ([], Panic (PanicString ''boom''))"

definition panicking_stream :: StreamHandler where
  "panicking_stream srv s = ([], Panic (PanicString ''boom''))"

definition sample_stream :: server_stream where
  "sample_stream = \<lparr>stream_name = ''s'', stream_context = plain_context\<rparr>"

definition probing_unary :: UnaryHandler where
  "probing_unary c req =
     ([LogWarnf ''unary handler runs''],
      Return (Some (if GetHubFromContext c = None then ''session: no'' else ''session: yes''),
              None))"

definition probing_stream :: StreamHandler where
  "probing_stream srv s =
     ([LogWarnf ''stream handler runs''],
      Return (Some (AppError
        (if GetHubFromContext (WrappedContext s) = None then ''session: no''
         else ''session: yes''))))"

section \<open>Properties\<close>

subsection \<open>The sample inputs, evaluated\<close>

lemma sample_simps:
  "Ignore sample_collab e = (e = AppError ''benign'')"
  "Extras sample_collab e = None"
  "Tags sample_collab e = [(''component'', ''x'')]"
  "sdk_capture sample_collab hub eo = Some ''evt-1''"
  "Ignore dropping_collab e = (e = AppError ''benign'')"
  "Extras dropping_collab e = None"
  "Tags dropping_collab e = [(''component'', ''x'')]"
  "sdk_capture dropping_collab hub eo = None"
  by (simp_all add: sample_collab_def dropping_collab_def)

lemma reporter_simps:
  "client enabled_reporter = Some (Client ''https://key@host/1'')"
  "handler enabled_reporter = Some sample_adapter"
  "client disabled_reporter = None"
  "handler disabled_reporter = None"
  by (simp_all add: enabled_reporter_def disabled_reporter_def InitSentry_def)

subsection \<open>Capture\<close>

text \<open>
  C8. Capture called with a nil error does nothing, for both values of the panic flag: no
  logging, no transmission, no panic, and the empty identifier is returned.
\<close>

theorem Capture_nil_noop:
  "Capture k wrapper None panic_flag = ([], Return '''')"
  by (simp add: Capture_def)

text \<open>
  C7. For every non-nil error, \<open>Capture(err, true)\<close> first completes its reporting
  attempt and then panics with \<open>err\<close>, whatever the reporter, the classification of the
  error and the answer of the SDK are. The attempt is: with an enabled reporter and an
  error that is not ignorable, the scope is opened, extras and tags are set, the error
  is sent to the SDK, the identifier is logged when the SDK gives one, and the scope is
  closed; otherwise the error is logged locally. These are the effects of
  \<open>Capture(err, false)\<close>.
\<close>

theorem Capture_repanics:
  "Capture k wrapper (Some e) True
     = ((if client wrapper \<noteq> None \<and> \<not> Ignore k e then
           [PushScope]
           @ (case Extras k e of
                Some x \<Rightarrow> [SetContext ''extras'' x, SetExtras x]
              | None \<Rightarrow> [])
           @ [SetTags (Tags k e), CaptureException CurrentHub (Some e)]
           @ (case sdk_capture k CurrentHub (Some e) of
                Some i \<Rightarrow> [LogErrorf e i]
              | None \<Rightarrow> [])
           @ [PopScope]
         else [LogError e]),
        Panic (PanicError e))
   \<and> fst (Capture k wrapper (Some e) True) = fst (Capture k wrapper (Some e) False)"
  by (simp add: Capture_def scope_setup_def Let_def split: option.splits)

text \<open>
  The statement at an enabled reporter and a reportable error the SDK accepts, and at a
  disabled reporter.
\<close>

theorem Capture_repanics_witness:
  "Capture sample_collab enabled_reporter (Some (AppError ''db down'')) True
     = ([PushScope, SetTags [(''component'', ''x'')],
         CaptureException CurrentHub (Some (AppError ''db down'')),
         LogErrorf (AppError ''db down'') ''evt-1'', PopScope],
        Panic (PanicError (AppError ''db down'')))
   \<and> Capture sample_collab disabled_reporter (Some (AppError ''db down'')) True
     = ([LogError (AppError ''db down'')], Panic (PanicError (AppError ''db down'')))"
  using Capture_repanics [of sample_collab enabled_reporter "AppError ''db down''"]
    Capture_repanics [of sample_collab disabled_reporter "AppError ''db down''"]
  by (simp add: reporter_simps sample_simps)

text \<open>
  C4, as amended. For every error marked ignorable, Capture and CaptureWithContext only
  log the error locally (the trace is the one local log entry, so nothing is sent
  upstream), for every reporter and every context; with the panic flag false they return
  the empty identifier, with the panic flag true they panic with the error and return
  nothing.
\<close>

theorem ignorable_local_only:
  "Ignore k e \<Longrightarrow>
     Capture k wrapper (Some e) panic_flag
       = ([LogError e], if panic_flag then Panic (PanicError e) else Return '''')
   \<and> CaptureWithContext k wrapper c (Some e) panic_flag
       = ([LogError e], if panic_flag then Panic (PanicError e) else Return '''')"
  by (simp add: Capture_def CaptureWithContext_def deref_return_def)

text \<open>The statement at an ignorable error, an enabled reporter and a context with a session.\<close>

theorem ignorable_local_only_witness:
  "Ignore sample_collab (AppError ''benign'')
   \<and> Capture sample_collab enabled_reporter (Some (AppError ''benign'')) False
       = ([LogError (AppError ''benign'')], Return '''')
   \<and> CaptureWithContext sample_collab enabled_reporter session_context
         (Some (AppError ''benign'')) False
       = ([LogError (AppError ''benign'')], Return '''')"
  using ignorable_local_only
    [of sample_collab "AppError ''benign''" enabled_reporter False session_context]
  by (simp add: sample_simps)

text \<open>
  With the panic flag true neither function returns an identifier for an ignorable error.
\<close>

theorem ignorable_panic_flag_counterexample:
  "Ignore sample_collab (AppError ''benign'')
   \<and> snd (Capture sample_collab enabled_reporter (Some (AppError ''benign'')) True)
       \<noteq> Return ''''
   \<and> snd (CaptureWithContext sample_collab enabled_reporter plain_context
            (Some (AppError ''benign'')) True)
       \<noteq> Return ''''"
  by (simp add: sample_simps Capture_def CaptureWithContext_def deref_return_def)

text \<open>
  C5, as amended. When the reporter is disabled (client and adapter absent, as
  \<open>InitSentry\<close> leaves them without an endpoint), Capture returns the empty identifier
  for a nil error and for every error when the panic flag is false, and panics with the
  error, returning nothing, when the error is not nil and the panic flag is true; the
  decorators HandleFunc and HandleHttpRouter return the given handler itself.
\<close>

theorem disabled_reporter_passthrough:
  "client wrapper = None \<Longrightarrow> handler wrapper = None \<Longrightarrow>
     snd (Capture k wrapper err panic_flag)
       = (case err of
            None \<Rightarrow> Return ''''
          | Some e \<Rightarrow> if panic_flag then Panic (PanicError e) else Return '''')
   \<and> HandleFunc wrapper f = f
   \<and> HandleHttpRouter wrapper g = g"
  by (simp add: Capture_def HandleFunc_def HandleHttpRouter_def split: option.splits)

text \<open>The statement at the reporter \<open>InitSentry\<close> builds when no endpoint is configured.\<close>

theorem disabled_reporter_passthrough_witness:
  "client (snd (InitSentry '''' True sample_adapter)) = None
   \<and> handler (snd (InitSentry '''' True sample_adapter)) = None
   \<and> snd (Capture sample_collab (snd (InitSentry '''' True sample_adapter))
            (Some (AppError ''db down'')) False)
       = Return ''''
   \<and> HandleFunc (snd (InitSentry '''' True sample_adapter)) (\<lambda>u. ([], Return u))
       = (\<lambda>u. ([], Return u))
   \<and> HandleHttpRouter (snd (InitSentry '''' True sample_adapter)) (\<lambda>u ps. ([], Return u))
       = (\<lambda>u ps. ([], Return u))"
  using disabled_reporter_passthrough
    [of "snd (InitSentry '''' True sample_adapter)" sample_collab
        "Some (AppError ''db down'')" False "\<lambda>u. ([], Return u)" "\<lambda>u ps. ([], Return u)"]
  by (simp add: InitSentry_def)

text \<open>
  With a disabled reporter, a non-nil error and the panic flag true, Capture does not
  return the empty identifier: it panics.
\<close>

theorem disabled_panic_flag_counterexample:
  "client disabled_reporter = None
   \<and> snd (Capture sample_collab disabled_reporter (Some (AppError ''db down'')) True)
       \<noteq> Return ''''"
  by (simp add: reporter_simps sample_simps Capture_def)

subsection \<open>CaptureWithContext\<close>

text \<open>
  C2. The claim: without a session in the context, CaptureWithContext has the effects of
  Capture and returns the identifier Capture returns. The code, at an enabled reporter,
  a reportable error and an SDK that answers \<open>evt-1\<close>: the effects are the same, Capture
  returns \<open>evt-1\<close>, and CaptureWithContext, which drops what Capture returns, returns the
  empty identifier.
\<close>

theorem fallback_drops_identifier:
  "GetHubFromContext plain_context = None
   \<and> fst (CaptureWithContext sample_collab enabled_reporter plain_context
            (Some (AppError ''db down'')) False)
       = fst (Capture sample_collab enabled_reporter (Some (AppError ''db down'')) False)
   \<and> snd (Capture sample_collab enabled_reporter (Some (AppError ''db down'')) False)
       = Return ''evt-1''
   \<and> snd (CaptureWithContext sample_collab enabled_reporter plain_context
            (Some (AppError ''db down'')) False)
       = Return ''''"
  by (simp add: reporter_simps sample_simps Capture_def CaptureWithContext_def
      deref_return_def GetHubFromContext_def plain_context_def)

text \<open>
  C3. The claim: CaptureWithContext never dereferences a nil identifier and only panics
  to raise the error of its caller again. The code, at an enabled reporter, a context
  with a session, a reportable error, the panic flag false and an SDK that drops the
  event (its answer is nil): the function panics with a nil dereference.
\<close>

theorem dropped_event_nil_dereference:
  "CaptureWithContext dropping_collab enabled_reporter session_context
       (Some (AppError ''db down'')) False
     = ([PushScope, SetTags [(''component'', ''x'')], PopScope,
         CaptureException (RequestHub 7) (Some (AppError ''db down''))],
        Panic NilDereference)"
  by (simp add: reporter_simps sample_simps Capture_def CaptureWithContext_def
      deref_return_def GetHubFromContext_def session_context_def scope_setup_def)

subsection \<open>Interceptors\<close>

text \<open>
  C6. When the handler of a unary call panics and repanic is off, the unary interceptor
  recovers the panic, reports it through the session of the call, and returns a nil
  response with an error whose code is Internal and whose message is the panic value
  formatted as a string.
\<close>

theorem unary_panic_internal:
  "\<not> Repanic opts \<Longrightarrow> h (spec_session_context ctx) req = (tr, Panic r) \<Longrightarrow>
     (\<exists>hub err. unary_interceptor opts ctx req h
        = (InvokeUnary (spec_session_context ctx) req # tr
             @ [RecoverWithContext hub (spec_session_context ctx) r],
           Return (None, Some err))
        \<and> GetHubFromContext (spec_session_context ctx) = Some hub
        \<and> status_Code err = Internal \<and> status_Message err = Sprintf_s r)"
  by (cases "GetHubFromContext ctx")
     (simp_all add: unary_interceptor_def spec_session_context_def status_Errorf_def
        GetHubFromContext_def SetHubOnContext_def)

text \<open>The statement at a handler that panics with the string \<open>boom\<close>.\<close>

theorem unary_panic_internal_witness:
  "\<not> Repanic sample_options
   \<and> panicking_unary (spec_session_context plain_context) ''req''
       = ([], Panic (PanicString ''boom''))
   \<and> snd (unary_interceptor sample_options plain_context ''req'' panicking_unary)
       = Return (None, Some (StatusError Internal ''boom''))"
  using unary_panic_internal
    [of sample_options panicking_unary plain_context "''req''" "[]" "PanicString ''boom''"]
  apply (simp add: sample_options_def panicking_unary_def)
  apply (elim exE conjE)
  subgoal for hub err by (cases err) simp_all
  done

text \<open>
  C1. The claim: when the handler of a streaming call panics and repanic is off, the
  stream interceptor returns an internal-error result carrying the panic value as a
  string. The code, at a handler that panics with the string \<open>boom\<close>: the panic is
  recovered and reported through the session, and the interceptor returns a nil error.
\<close>

theorem stream_panic_returns_nil:
  "Repanic sample_options = False
   \<and> stream_interceptor sample_options ''srv'' sample_stream panicking_stream
     = ([InvokeStream ''srv''
           \<lparr>ServerStream = sample_stream,
            WrappedContext = \<lparr>ctx_hub = Some (Clone CurrentHub), ctx_values = []\<rparr>\<rparr>,
         RecoverWithContext (Clone CurrentHub)
           \<lparr>ctx_hub = Some (Clone CurrentHub), ctx_values = []\<rparr> (PanicString ''boom'')],
        Return None)"
  by (simp add: stream_interceptor_def sample_options_def sample_stream_def
      panicking_stream_def plain_context_def GetHubFromContext_def SetHubOnContext_def
      WrapServerStream_def)

text \<open>
  C9. For every call, the unary and the stream interceptor hand the downstream handler a
  context that carries a session: the session already in the context of the call, with
  the context unchanged, or else a clone of the process-wide session attached to it.
  The interceptor runs the handler on that context (for a stream, on the wrapper that
  exposes it): the effects of the handler there are part of the effects of the
  interceptor, what the handler returns there is what the interceptor returns, a panic
  of the handler there is recovered through that session, and a returned error is
  reported through that session. The handler is consulted at no other context.
\<close>

theorem interceptors_ensure_session:
  "spec_session_context ctx
     = (case GetHubFromContext ctx of
          None \<Rightarrow> SetHubOnContext ctx (Clone CurrentHub)
        | Some hub0 \<Rightarrow> ctx)
   \<and> GetHubFromContext (spec_session_context ctx)
     = Some (case GetHubFromContext ctx of None \<Rightarrow> Clone CurrentHub | Some hub0 \<Rightarrow> hub0)
   \<and> unary_interceptor opts ctx req h
     = (InvokeUnary (spec_session_context ctx) req
          # fst (h (spec_session_context ctx) req)
          @ (case snd (h (spec_session_context ctx) req) of
               Panic r \<Rightarrow>
                 [RecoverWithContext
                    (case GetHubFromContext ctx of
                       None \<Rightarrow> Clone CurrentHub
                     | Some hub0 \<Rightarrow> hub0)
                    (spec_session_context ctx) r]
             | Return v \<Rightarrow>
                 (if ReportOn opts (snd v) then
                    [CaptureException
                       (case GetHubFromContext ctx of
                          None \<Rightarrow> Clone CurrentHub
                        | Some hub0 \<Rightarrow> hub0)
                       (snd v)]
                  else [])),
        case snd (h (spec_session_context ctx) req) of
          Panic r \<Rightarrow>
            (if Repanic opts then Panic r
             else Return (None, Some (StatusError Internal (Sprintf_s r))))
        | Return v \<Rightarrow> Return v)
   \<and> stream_interceptor opts srv stream g
     = (InvokeStream srv
          \<lparr>ServerStream = stream,
           WrappedContext = spec_session_context (stream_context stream)\<rparr>
          # fst (g srv \<lparr>ServerStream = stream,
                   WrappedContext = spec_session_context (stream_context stream)\<rparr>)
          @ (case snd (g srv \<lparr>ServerStream = stream,
                   WrappedContext = spec_session_context (stream_context stream)\<rparr>) of
               Panic r \<Rightarrow>
                 [RecoverWithContext
                    (case GetHubFromContext (stream_context stream) of
                       None \<Rightarrow> Clone CurrentHub
                     | Some hub0 \<Rightarrow> hub0)
                    (spec_session_context (stream_context stream)) r]
             | Return err \<Rightarrow>
                 (if ReportOn opts err then
                    [CaptureException
                       (case GetHubFromContext (stream_context stream) of
                          None \<Rightarrow> Clone CurrentHub
                        | Some hub0 \<Rightarrow> hub0)
                       err]
                  else [])),
        case snd (g srv \<lparr>ServerStream = stream,
                   WrappedContext = spec_session_context (stream_context stream)\<rparr>) of
          Panic r \<Rightarrow> (if Repanic opts then Panic r else Return None)
        | Return err \<Rightarrow> Return err)
   \<and> unary_interceptor opts ctx req h
       = unary_interceptor opts ctx req (\<lambda>c r. h (spec_session_context ctx) req)
   \<and> stream_interceptor opts srv stream g
       = stream_interceptor opts srv stream
           (\<lambda>s w. g srv \<lparr>ServerStream = stream,
               WrappedContext = spec_session_context (stream_context stream)\<rparr>)"
proof (intro conjI)
  show "spec_session_context ctx
     = (case GetHubFromContext ctx of
          None \<Rightarrow> SetHubOnContext ctx (Clone CurrentHub)
        | Some hub0 \<Rightarrow> ctx)"
    by (simp add: spec_session_context_def split: option.splits)
  show "GetHubFromContext (spec_session_context ctx)
     = Some (case GetHubFromContext ctx of None \<Rightarrow> Clone CurrentHub | Some hub0 \<Rightarrow> hub0)"
    by (simp add: spec_session_context_def GetHubFromContext_def SetHubOnContext_def
        split: option.splits)
  show "unary_interceptor opts ctx req h
     = (InvokeUnary (spec_session_context ctx) req
          # fst (h (spec_session_context ctx) req)
          @ (case snd (h (spec_session_context ctx) req) of
               Panic r \<Rightarrow>
                 [RecoverWithContext
                    (case GetHubFromContext ctx of
                       None \<Rightarrow> Clone CurrentHub
                     | Some hub0 \<Rightarrow> hub0)
                    (spec_session_context ctx) r]
             | Return v \<Rightarrow>
                 (if ReportOn opts (snd v) then
                    [CaptureException
                       (case GetHubFromContext ctx of
                          None \<Rightarrow> Clone CurrentHub
                        | Some hub0 \<Rightarrow> hub0)
                       (snd v)]
                  else [])),
        case snd (h (spec_session_context ctx) req) of
          Panic r \<Rightarrow>
            (if Repanic opts then Panic r
             else Return (None, Some (StatusError Internal (Sprintf_s r))))
        | Return v \<Rightarrow> Return v)"
    by (cases "GetHubFromContext ctx")
       (simp_all add: unary_interceptor_def spec_session_context_def status_Errorf_def
          split: prod.splits outcome.splits)
  show "stream_interceptor opts srv stream g
     = (InvokeStream srv
          \<lparr>ServerStream = stream,
           WrappedContext = spec_session_context (stream_context stream)\<rparr>
          # fst (g srv \<lparr>ServerStream = stream,
                   WrappedContext = spec_session_context (stream_context stream)\<rparr>)
          @ (case snd (g srv \<lparr>ServerStream = stream,
                   WrappedContext = spec_session_context (stream_context stream)\<rparr>) of
               Panic r \<Rightarrow>
                 [RecoverWithContext
                    (case GetHubFromContext (stream_context stream) of
                       None \<Rightarrow> Clone CurrentHub
                     | Some hub0 \<Rightarrow> hub0)
                    (spec_session_context (stream_context stream)) r]
             | Return err \<Rightarrow>
                 (if ReportOn opts err then
                    [CaptureException
                       (case GetHubFromContext (stream_context stream) of
                          None \<Rightarrow> Clone CurrentHub
                        | Some hub0 \<Rightarrow> hub0)
                       err]
                  else [])),
        case snd (g srv \<lparr>ServerStream = stream,
                   WrappedContext = spec_session_context (stream_context stream)\<rparr>) of
          Panic r \<Rightarrow> (if Repanic opts then Panic r else Return None)
        | Return err \<Rightarrow> Return err)"
    by (cases "GetHubFromContext (stream_context stream)")
       (simp_all add: stream_interceptor_def spec_session_context_def WrapServerStream_def
          Let_def split: prod.splits outcome.splits)
  show "unary_interceptor opts ctx req h
       = unary_interceptor opts ctx req (\<lambda>c r. h (spec_session_context ctx) req)"
    by (cases "GetHubFromContext ctx")
       (simp_all add: unary_interceptor_def spec_session_context_def)
  show "stream_interceptor opts srv stream g
       = stream_interceptor opts srv stream
           (\<lambda>s w. g srv \<lparr>ServerStream = stream,
               WrappedContext = spec_session_context (stream_context stream)\<rparr>)"
    by (cases "GetHubFromContext (stream_context stream)")
       (simp_all add: stream_interceptor_def spec_session_context_def WrapServerStream_def
          Let_def)
qed

text \<open>
  The statement at handlers that answer whether the context they are given carries a
  session, called without a session and with one.
\<close>

theorem interceptors_ensure_session_witness:
  "unary_interceptor sample_options plain_context ''req'' probing_unary
     = ([InvokeUnary \<lparr>ctx_hub = Some (Clone CurrentHub), ctx_values = []\<rparr> ''req'',
         LogWarnf ''unary handler runs''],
        Return (Some ''session: yes'', None))
   \<and> unary_interceptor sample_options session_context ''req'' probing_unary
     = ([InvokeUnary session_context ''req'', LogWarnf ''unary handler runs''],
        Return (Some ''session: yes'', None))
   \<and> stream_interceptor sample_options ''srv'' sample_stream probing_stream
     = ([InvokeStream ''srv''
           \<lparr>ServerStream = sample_stream,
            WrappedContext = \<lparr>ctx_hub = Some (Clone CurrentHub), ctx_values = []\<rparr>\<rparr>,
         LogWarnf ''stream handler runs'',
         CaptureException (Clone CurrentHub) (Some (AppError ''session: yes''))],
        Return (Some (AppError ''session: yes'')))"
  using interceptors_ensure_session
      [of plain_context sample_options "''req''" probing_unary "''srv''" sample_stream
          probing_stream]
    interceptors_ensure_session
      [of session_context sample_options "''req''" probing_unary "''srv''" sample_stream
          probing_stream]
  by (simp add: sample_options_def sample_stream_def plain_context_def session_context_def
      probing_unary_def probing_stream_def GetHubFromContext_def SetHubOnContext_def)

end
